theory Spec2Isabelle
  imports Main "HOL-Library.Sublist" "HOL-Library.List_Lexorder"
begin

section \<open>Strings, errors and timestamps\<close>

text \<open>
  A Python \<open>str\<close> is a sequence of Unicode code points, and \<open>len\<close> and slicing count
  code points. A string is therefore a list of code points, each a natural number; the
  literals of the script are written through \<open>ascii\<close> where they are ASCII and as explicit
  code points where they are not.
\<close>

type_synonym pystr = "nat list"

definition ascii :: "string \<Rightarrow> pystr" where
  "ascii s = map of_char s"

text \<open>
  The exceptions that can end a call. All of them are subclasses of Python's
  \<open>Exception\<close>, which is what \<open>except Exception\<close> in \<open>summarize\<close> catches.
\<close>

datatype py_error =
    AttributeError
  | TypeError
  | JSONDecodeError
  | PermissionError
  | ImportError
  | AuthenticationError
  | APIConnectionError
  | HTTPError
  | OverflowError
  | ValueError
  | UnicodeEncodeError

text \<open>
  A \<open>datetime\<close>: the wall-clock reading in microseconds, counted from
  0001-01-01 00:00:00, the least \<open>datetime\<close>, and the UTC offset of its \<open>tzinfo\<close> in
  microseconds, \<open>None\<close> for a naive value. The greatest \<open>datetime\<close> is
  9999-12-31 23:59:59.999999, day 3652059 of the calendar. Two aware values are compared
  as instants (wall clock minus offset); comparing a naive with an aware value raises
  \<open>TypeError\<close>.
\<close>

datatype py_datetime = DT (wall: int) (utcoffset: "int option")

definition replace_tzinfo_utc :: "py_datetime \<Rightarrow> py_datetime" where
  "replace_tzinfo_utc d = DT (wall d) (Some 0)"

definition DATETIME_MAX :: int where
  "DATETIME_MAX = 315537897599999999"

text \<open>
  \<open>timedelta(hours=h)\<close>, in microseconds: the constructor raises \<open>OverflowError\<close>
  when the number of whole days, \<open>h // 24\<close>, has a magnitude above 999999999.
\<close>

definition timedelta_hours :: "int \<Rightarrow> py_error + int" where
  "timedelta_hours h =
     (if - 999999999 \<le> h div 24 \<and> h div 24 \<le> 999999999
      then Inr (h * 3600000000) else Inl OverflowError)"

text \<open>
  \<open>d - delta\<close> moves the wall clock and keeps the \<open>tzinfo\<close>; it raises
  \<open>OverflowError\<close> when the result is not a \<open>datetime\<close> of the years 1 to 9999.
\<close>

definition dt_sub :: "py_datetime \<Rightarrow> int \<Rightarrow> py_error + py_datetime" where
  "dt_sub d delta =
     (let w = wall d - delta
      in if 0 \<le> w \<and> w \<le> DATETIME_MAX then Inr (DT w (utcoffset d)) else Inl OverflowError)"

fun dt_ge :: "py_datetime \<Rightarrow> py_datetime \<Rightarrow> py_error + bool" where
  "dt_ge (DT w1 (Some o1)) (DT w2 (Some o2)) = Inr (w1 - o1 \<ge> w2 - o2)"
| "dt_ge (DT w1 None) (DT w2 None) = Inr (w1 \<ge> w2)"
| "dt_ge _ _ = Inl TypeError"

section \<open>Records of the catalog\<close>

text \<open>The dict that \<open>fetch_arxiv\<close> yields for each result.\<close>

record paper =
  pid :: pystr
  title :: pystr
  summary :: pystr
  authors :: "pystr list"
  updated :: "py_datetime option"
  published :: "py_datetime option"
  link :: pystr

text \<open>
  \<open>item["updated"] or item["published"]\<close>: a \<open>datetime\<close> is always truthy, so the
  \<open>or\<close> yields \<open>updated\<close> unless it is \<open>None\<close>.
\<close>

definition updated_or_published :: "paper \<Rightarrow> py_datetime option" where
  "updated_or_published p = (case updated p of Some d \<Rightarrow> Some d | None \<Rightarrow> published p)"

section \<open>Recency and topic filter\<close>

text \<open>
  \<open>within_lookback(item, hours, tzname)\<close>. The reading of the clock,
  \<open>datetime.now(local)\<close>, is the argument \<open>now\<close>; it carries the offset of the
  configured timezone. The threshold is computed first and may overflow; after that, with
  both timestamps \<open>None\<close>, the attribute access \<open>ts.tzinfo\<close> raises
  \<open>AttributeError\<close>.
\<close>

definition within_lookback :: "int \<Rightarrow> py_datetime \<Rightarrow> paper \<Rightarrow> py_error + bool" where
  "within_lookback hours now item =
     (case timedelta_hours hours of
        Inl e \<Rightarrow> Inl e
      | Inr delta \<Rightarrow>
          (case dt_sub now delta of
             Inl e \<Rightarrow> Inl e
           | Inr threshold \<Rightarrow>
               (case updated_or_published item of
                  None \<Rightarrow> Inl AttributeError
                | Some ts \<Rightarrow>
                    (let ts' = (if utcoffset ts = None then replace_tzinfo_utc ts else ts)
                     in dt_ge ts' threshold))))"

text \<open>
  \<open>needle in text\<close> on strings: the needle occurs at some position of the text. The empty
  needle occurs in every text.
\<close>

fun py_in :: "pystr \<Rightarrow> pystr \<Rightarrow> bool" where
  "py_in needle [] = (needle = [])"
| "py_in needle (c # cs) = (prefix needle (c # cs) \<or> py_in needle cs)"

definition BLACKLIST_TERMS :: "pystr list" where
  "BLACKLIST_TERMS = [ascii ''quantum field'', ascii ''string theory'']"

text \<open>
  \<open>topic_ok(item)\<close>. \<open>str.lower\<close> is the Unicode lower-casing of the Python runtime;
  it is the parameter \<open>lower\<close>.
\<close>

definition topic_ok :: "(pystr \<Rightarrow> pystr) \<Rightarrow> paper \<Rightarrow> bool" where
  "topic_ok lower item =
     (let body = lower (title item @ ascii '' '' @ summary item)
      in \<not> list_ex (\<lambda>b. py_in (lower b) body) BLACKLIST_TERMS)"

section \<open>Summarizer\<close>

text \<open>
  \<open>s.replace(old, new)\<close> for a one-character \<open>old\<close>, the only use the script makes
  of it (\<open>"\n"\<close> to \<open>" "\<close> and \<open>"\n"\<close> to \<open>"<br/>"\<close>).
\<close>

definition py_replace_char :: "nat \<Rightarrow> pystr \<Rightarrow> pystr \<Rightarrow> pystr" where
  "py_replace_char old new s = concat (map (\<lambda>c. if c = old then new else [c]) s)"

text \<open>
  \<open>s.split(sep)\<close> scans from the left and cuts at each occurrence of the separator that
  does not overlap the one before. The separator is given as its first code point and the
  rest, so it is never empty (Python raises \<open>ValueError\<close> for an empty one); \<open>cur\<close>
  holds the piece that is being read.
\<close>

fun split_from :: "nat \<Rightarrow> pystr \<Rightarrow> pystr \<Rightarrow> pystr \<Rightarrow> pystr list" where
  "split_from a as cur [] = [cur]"
| "split_from a as cur (c # cs) =
     (if prefix (a # as) (c # cs)
      then cur # split_from a as [] (drop (length as) cs)
      else split_from a as (cur @ [c]) cs)"

definition split_dot_space :: "pystr \<Rightarrow> pystr list" where
  "split_dot_space s = split_from 46 [32] [] s"

fun py_join :: "pystr \<Rightarrow> pystr list \<Rightarrow> pystr" where
  "py_join sep [] = []"
| "py_join sep [x] = x"
| "py_join sep (x # y # ys) = x @ sep @ py_join sep (y # ys)"

text \<open>The literals of the fallback branch, as code points.\<close>

definition BULLET_DATA :: pystr where
  "BULLET_DATA = [0x6570, 0x636E, 0xFF1A, 0x5305, 0x542B, 0x518D, 0x5206, 0x6790, 0x2F,
     0x536B, 0x661F, 0x2F, 0x89C2, 0x6D4B, 0x7B49, 0x6765, 0x6E90, 0x3002]"

definition BULLET_METHOD :: pystr where
  "BULLET_METHOD = [0x65B9, 0x6CD5, 0xFF1A, 0x91C7, 0x7528, 0x673A, 0x5668, 0x5B66, 0x4E60,
     0x2F, 0x6DF1, 0x5EA6, 0x5B66, 0x4E60, 0x6A21, 0x578B, 0x3002]"

definition BULLET_TASK :: pystr where
  "BULLET_TASK = [0x4EFB, 0x52A1, 0xFF1A, 0x964D, 0x5C3A, 0x5EA6, 0x2F, 0x9884, 0x62A5, 0x2F,
     0x4E34, 0x8FD1, 0x9884, 0x6D4B, 0x7B49, 0x5E94, 0x7528, 0x573A, 0x666F, 0x3002]"

definition BULLET_GENERIC :: pystr where
  "BULLET_GENERIC = [0x6458, 0x8981, 0x672A, 0x63D0, 0x4F9B, 0x66F4, 0x591A, 0x7EC6, 0x8282,
     0xFF0C, 0x5EFA, 0x8BAE, 0x9605, 0x8BFB, 0x539F, 0x6587, 0x3002]"

definition POINTS_HEADER :: pystr where
  "POINTS_HEADER = [0xA, 0xA, 0x8981, 0x70B9, 0xFF1A, 0xA, 0x2D, 0x20]"

definition BULLET_SEP :: pystr where
  "BULLET_SEP = [0xA, 0x2D, 0x20]"

definition fallback_head :: "pystr \<Rightarrow> pystr" where
  "fallback_head abstract =
     (let sents = split_dot_space (py_replace_char 10 (ascii '' '') abstract)
      in take 600 (py_join (ascii ''. '') (take 3 sents)))"

definition fallback_bullets :: "(pystr \<Rightarrow> pystr) \<Rightarrow> pystr \<Rightarrow> pystr list" where
  "fallback_bullets lower abstract =
     (let low = lower abstract;
          b1 = (if py_in (ascii ''dataset'') low \<or> py_in (ascii ''era5'') low
                   \<or> py_in (ascii ''reanalysis'') low
                then [BULLET_DATA] else []);
          b2 = b1 @ (if py_in (ascii ''model'') low \<or> py_in (ascii ''neural'') low
                        \<or> py_in (ascii ''transformer'') low
                     then [BULLET_METHOD] else []);
          b3 = b2 @ (if py_in (ascii ''downscal'') low \<or> py_in (ascii ''forecast'') low
                        \<or> py_in (ascii ''nowcast'') low
                     then [BULLET_TASK] else [])
      in if b3 = [] then [BULLET_GENERIC] else b3)"

definition fallback_summary :: "(pystr \<Rightarrow> pystr) \<Rightarrow> pystr \<Rightarrow> pystr" where
  "fallback_summary lower abstract =
     fallback_head abstract @ POINTS_HEADER @ py_join BULLET_SEP (fallback_bullets lower abstract)"

text \<open>
  \<open>summarize(title, abstract)\<close>. \<open>api_key\<close> is the value of \<open>os.getenv\<close> (\<open>None\<close>
  when the variable is unset; the empty string is falsy). \<open>chat\<close> stands for the body of
  the \<open>try\<close> block, everything from the import to \<open>content.strip()\<close>: given the title and
  the abstract cut to 5000 code points that go into the prompt, it either returns the text
  or raises. The handler prints a line with the exception and then falls through to the
  fallback. That \<open>print\<close> is inside the handler and not guarded: \<open>print_error e\<close> is
  \<open>None\<close> when the line for the exception \<open>e\<close> is written and the exception that
  \<open>print\<close> raises otherwise (a stream that cannot encode the text, a closed pipe), and
  that exception leaves \<open>summarize\<close>.
\<close>

definition summarize ::
  "pystr option \<Rightarrow> (pystr \<Rightarrow> pystr \<Rightarrow> py_error + pystr) \<Rightarrow> (py_error \<Rightarrow> py_error option)
     \<Rightarrow> (pystr \<Rightarrow> pystr) \<Rightarrow> pystr \<Rightarrow> pystr \<Rightarrow> py_error + pystr" where
  "summarize api_key chat print_error lower ttl abstract =
     (case api_key of
        None \<Rightarrow> Inr (fallback_summary lower abstract)
      | Some k \<Rightarrow>
          if k = [] then Inr (fallback_summary lower abstract)
          else (case chat ttl (take 5000 abstract) of
                  Inr content \<Rightarrow> Inr content
                | Inl e \<Rightarrow>
                    (case print_error e of
                       Some x \<Rightarrow> Inl x
                     | None \<Rightarrow> Inr (fallback_summary lower abstract))))"

section \<open>Feed renderer\<close>

text \<open>
  The feed is kept as a document: the channel fields and the list of entries in the order in
  which \<open>rss_str\<close> writes them. Formatting a date as an RFC 822 string and the markup
  itself are left to the libraries; \<open>to_rfc822\<close> keeps the instant it formats.
\<close>

record feed_entry =
  fe_id :: pystr
  fe_title :: pystr
  fe_link :: pystr
  fe_pubDate :: py_datetime
  fe_description :: pystr

record feed =
  fg_title :: pystr
  fg_link :: pystr
  fg_description :: pystr
  fg_language :: pystr
  fg_entries :: "feed_entry list"

text \<open>
  The library's \<open>FeedGenerator.add_entry(feedEntry=None, order='prepend')\<close> inserts the
  new entry at index 0 of the feed's entry list and appends it only for
  \<open>order='append'\<close>. The script calls \<open>fg.add_entry()\<close>, so with the default.
\<close>

datatype entry_order = Prepend | Append

definition add_entry :: "entry_order \<Rightarrow> feed_entry \<Rightarrow> feed \<Rightarrow> feed" where
  "add_entry ord e fg =
     (case ord of
        Prepend \<Rightarrow> fg\<lparr>fg_entries := e # fg_entries fg\<rparr>
      | Append \<Rightarrow> fg\<lparr>fg_entries := fg_entries fg @ [e]\<rparr>)"

definition add_entry_default_order :: entry_order where
  "add_entry_default_order = Prepend"

record channel =
  ch_title :: pystr
  ch_link :: pystr
  ch_description :: pystr

definition RSS_CHANNEL :: channel where
  "RSS_CHANNEL = \<lparr>
     ch_title = [0x61, 0x72, 0x58, 0x69, 0x76, 0x20, 0xB7, 0x20, 0x6C14, 0x8C61, 0x20, 0xD7,
       0x20, 0x41, 0x49, 0x20, 0x7CBE, 0x9009, 0x8BBA, 0x6587],
     ch_link = ascii ''https://example.github.io/arxiv-meteo-ai-rss/'',
     ch_description = [0x6BCF, 0x65E5, 0x31, 0x30, 0x3A, 0x30, 0x30, 0x81EA, 0x52A8, 0x66F4,
       0x65B0, 0x20, 0xB7, 0x20, 0x6C14, 0x8C61, 0x4E0E, 0x41, 0x49, 0x4EA4, 0x53C9, 0x6700,
       0x65B0, 0x8BBA, 0x6587, 0x4E0E, 0x8981, 0x70B9] \<rparr>"

text \<open>The dict that \<open>main\<close> builds for each fresh paper.\<close>

record item =
  it_guid :: pystr
  it_title :: pystr
  it_link :: pystr
  it_authors :: "pystr list"
  it_pubDate :: "py_datetime option"
  it_summary_html :: pystr

definition to_rfc822 :: "py_datetime option \<Rightarrow> py_error + py_datetime" where
  "to_rfc822 dt_obj =
     (case dt_obj of
        None \<Rightarrow> Inl AttributeError
      | Some d \<Rightarrow> Inr (if utcoffset d = None then replace_tzinfo_utc d else d))"

definition author_line :: "item \<Rightarrow> pystr" where
  "author_line it = py_join (ascii '', '') (take 8 (it_authors it))"

definition desc_html :: "item \<Rightarrow> pystr" where
  "desc_html it =
     ascii ''<p><b>Authors:</b> '' @ author_line it @ ascii ''</p><p>''
       @ it_summary_html it @ ascii ''</p>''"

text \<open>The body of the loop of \<open>build_rss\<close>, and the loop.\<close>

definition render_entry :: "item \<Rightarrow> py_error + feed_entry" where
  "render_entry it =
     (case to_rfc822 (it_pubDate it) of
        Inl e \<Rightarrow> Inl e
      | Inr d \<Rightarrow> Inr \<lparr> fe_id = it_guid it, fe_title = it_title it, fe_link = it_link it,
                       fe_pubDate = d, fe_description = desc_html it \<rparr>)"

fun add_items :: "feed \<Rightarrow> item list \<Rightarrow> py_error + feed" where
  "add_items fg [] = Inr fg"
| "add_items fg (it # its) =
     (case render_entry it of
        Inl e \<Rightarrow> Inl e
      | Inr fe \<Rightarrow> add_items (add_entry add_entry_default_order fe fg) its)"

text \<open>
  \<open>fg.rss_str(pretty=True)\<close> builds the element tree, and the tree library refuses a
  text that is not fit for the markup (a NULL byte, a control character) with
  \<open>ValueError\<close>. Which strings it accepts is the parameter \<open>ok\<close>. The texts of the
  feed are the channel fields and, for each entry, its identifier, title, link and
  description; the date is a string the script formats itself.
\<close>

definition entry_texts :: "feed_entry \<Rightarrow> pystr list" where
  "entry_texts fe = [fe_id fe, fe_title fe, fe_link fe, fe_description fe]"

definition feed_texts :: "feed \<Rightarrow> pystr list" where
  "feed_texts fg =
     [fg_title fg, fg_link fg, fg_description fg, fg_language fg]
       @ concat (map entry_texts (fg_entries fg))"

definition rss_str :: "(pystr \<Rightarrow> bool) \<Rightarrow> feed \<Rightarrow> py_error + feed" where
  "rss_str ok fg = (if list_all ok (feed_texts fg) then Inr fg else Inl ValueError)"

definition build_rss :: "(pystr \<Rightarrow> bool) \<Rightarrow> channel \<Rightarrow> item list \<Rightarrow> py_error + feed" where
  "build_rss ok ch items =
     (case add_items \<lparr> fg_title = ch_title ch, fg_link = ch_link ch,
                       fg_description = ch_description ch, fg_language = ascii ''zh-CN'',
                       fg_entries = [] \<rparr> items of
        Inl e \<Rightarrow> Inl e
      | Inr fg \<Rightarrow> rss_str ok fg)"

section \<open>State store\<close>

text \<open>
  The state is the dict that \<open>json.load\<close> returns: the key \<open>seen_ids\<close> with the list
  of identifiers, in the format the script itself writes. The file at \<open>STATE_PATH\<close> is
  absent (\<open>None\<close>) or holds something: a document that parses to a state, bytes that
  \<open>json.load\<close> rejects, or a file that cannot be opened for reading. The file at
  \<open>OUTPUT_PATH\<close> holds the last feed written.
\<close>

type_synonym state = "string \<rightharpoonup> pystr list"

datatype stored = Doc state | Corrupt | Unreadable

record files =
  state_file :: "stored option"
  output_file :: "feed option"

definition empty_state :: state where
  "empty_state = [''seen_ids'' \<mapsto> []]"

definition ensure_state :: "files \<Rightarrow> (py_error + state) \<times> files" where
  "ensure_state fs =
     (let fs1 = (case state_file fs of
                   None \<Rightarrow> fs\<lparr>state_file := Some (Doc empty_state)\<rparr>
                 | Some _ \<Rightarrow> fs)
      in case state_file fs1 of
           Some (Doc st) \<Rightarrow> (Inr st, fs1)
         | Some Corrupt \<Rightarrow> (Inl JSONDecodeError, fs1)
         | _ \<Rightarrow> (Inl PermissionError, fs1))"

definition save_state :: "state \<Rightarrow> files \<Rightarrow> files" where
  "save_state st fs = fs\<lparr>state_file := Some (Doc st)\<rparr>"

definition state_get :: "state \<Rightarrow> string \<Rightarrow> pystr list \<Rightarrow> pystr list" where
  "state_get st k dflt = (case st k of None \<Rightarrow> dflt | Some v \<Rightarrow> v)"

section \<open>The run\<close>

text \<open>
  Python slices: \<open>xs[:n]\<close> and \<open>xs[-n:]\<close> for \<open>n > 0\<close>. A negative bound of
  \<open>xs[:n]\<close> counts from the end.
\<close>

definition slice_to :: "int \<Rightarrow> 'a list \<Rightarrow> 'a list" where
  "slice_to n xs = (if 0 \<le> n then take (nat n) xs else take (length xs - nat (- n)) xs)"

definition slice_last :: "nat \<Rightarrow> 'a list \<Rightarrow> 'a list" where
  "slice_last n xs = drop (length xs - n) xs"

text \<open>
  What the generator \<open>fetch_arxiv\<close> does when it is iterated: it yields a record and
  goes on, ends, or raises (the client gave up on the catalog).
\<close>

datatype 'a gen = Stop | Yield 'a "'a gen" | Raise py_error

text \<open>
  Everything a run reads from outside: the configuration taken from the environment
  variables, the runtime's \<open>str.lower\<close> and the order in which \<open>list\<close> enumerates a
  set, the clock (\<open>now i\<close> is \<open>datetime.now(local)\<close> at the \<open>i\<close>-th call of
  \<open>within_lookback\<close>), the catalog's answer, the completion service, what printing the
  line for an exception does and which texts the tree library accepts.
\<close>

record env =
  LOOKBACK_HOURS :: int
  MAX_ITEMS_PER_RUN :: int
  DEEPSEEK_API_KEY :: "pystr option"
  str_lower :: "pystr \<Rightarrow> pystr"
  list_of_set :: "pystr set \<Rightarrow> pystr list"
  now :: "nat \<Rightarrow> py_datetime"
  arxiv_results :: "paper gen"
  deepseek_chat :: "pystr \<Rightarrow> pystr \<Rightarrow> py_error + pystr"
  print_error :: "py_error \<Rightarrow> py_error option"
  xml_compatible :: "pystr \<Rightarrow> bool"

text \<open>
  \<open>[p for p in fetch_arxiv() if within_lookback(p) and topic_ok(p)]\<close>; \<open>i\<close> counts the
  records read so far.
\<close>

fun select_papers :: "env \<Rightarrow> nat \<Rightarrow> paper gen \<Rightarrow> py_error + paper list" where
  "select_papers E i Stop = Inr []"
| "select_papers E i (Raise e) = Inl e"
| "select_papers E i (Yield p g) =
     (case within_lookback (LOOKBACK_HOURS E) (now E i) p of
        Inl e \<Rightarrow> Inl e
      | Inr recent \<Rightarrow>
          (let keep = (recent \<and> topic_ok (str_lower E) p) in
           case select_papers E (Suc i) g of
             Inl e \<Rightarrow> Inl e
           | Inr ps \<Rightarrow> Inr (if keep then p # ps else ps)))"

definition make_item :: "env \<Rightarrow> paper \<Rightarrow> py_error + item" where
  "make_item E p =
     (case summarize (DEEPSEEK_API_KEY E) (deepseek_chat E) (print_error E) (str_lower E)
             (title p) (summary p) of
        Inl e \<Rightarrow> Inl e
      | Inr summ \<Rightarrow>
          Inr \<lparr> it_guid = pid p, it_title = title p, it_link = link p,
                it_authors = authors p, it_pubDate = updated_or_published p,
                it_summary_html = py_replace_char 10 (ascii ''<br/>'') summ \<rparr>)"

fun make_items :: "env \<Rightarrow> paper list \<Rightarrow> py_error + item list" where
  "make_items E [] = Inr []"
| "make_items E (p # ps) =
     (case make_item E p of
        Inl e \<Rightarrow> Inl e
      | Inr it \<Rightarrow> (case make_items E ps of Inl e \<Rightarrow> Inl e | Inr its \<Rightarrow> Inr (it # its)))"

definition fresh_papers :: "env \<Rightarrow> pystr set \<Rightarrow> paper list \<Rightarrow> paper list" where
  "fresh_papers E seen papers =
     slice_to (MAX_ITEMS_PER_RUN E) (filter (\<lambda>p. pid p \<notin> seen) papers)"

text \<open>
  \<open>main()\<close>: the result is the number of items of the printed line, or the exception
  that ended the run, and the files as the run leaves them. Creating the directories,
  writing the two files and the closing \<open>print\<close>, which comes after both files are
  written, are taken to succeed.
\<close>

definition main :: "env \<Rightarrow> files \<Rightarrow> (py_error + nat) \<times> files" where
  "main E fs =
     (case ensure_state fs of
        (Inl e, fs1) \<Rightarrow> (Inl e, fs1)
      | (Inr st, fs1) \<Rightarrow>
          (let seen = set (state_get st ''seen_ids'' []) in
           case select_papers E 0 (arxiv_results E) of
             Inl e \<Rightarrow> (Inl e, fs1)
           | Inr papers \<Rightarrow>
               (let fresh = fresh_papers E seen papers in
                case make_items E fresh of
                  Inl e \<Rightarrow> (Inl e, fs1)
                | Inr items \<Rightarrow>
                    (case build_rss (xml_compatible E) RSS_CHANNEL items of
                       Inl e \<Rightarrow> (Inl e, fs1)
                     | Inr rss \<Rightarrow>
                         (let fs2 = fs1\<lparr>output_file := Some rss\<rparr>;
                              ids = slice_last 5000
                                      (list_of_set E (seen \<union> set (map pid fresh)));
                              st' = st(''seen_ids'' \<mapsto> ids)
                          in (Inr (length items), save_state st' fs2))))))"

section \<open>What a run is observed to do\<close>

text \<open>
  The instant a timestamp denotes when a value without timezone information is read as UTC;
  the entries of the feed that a run writes (none when the run is aborted); the identifiers
  that a run finds in the state file when it starts; the identifiers in the state file.
\<close>

definition instant :: "py_datetime \<Rightarrow> int" where
  "instant d = (case utcoffset d of None \<Rightarrow> wall d | Some off \<Rightarrow> wall d - off)"

definition emitted :: "env \<Rightarrow> files \<Rightarrow> feed_entry list" where
  "emitted E fs =
     (case main E fs of
        (Inr n, fs') \<Rightarrow> (case output_file fs' of Some rss \<Rightarrow> fg_entries rss | None \<Rightarrow> [])
      | (Inl e, fs') \<Rightarrow> [])"

definition loaded_seen :: "files \<Rightarrow> pystr set" where
  "loaded_seen fs =
     (case ensure_state fs of
        (Inr st, fs1) \<Rightarrow> set (state_get st ''seen_ids'' [])
      | (Inl e, fs1) \<Rightarrow> {})"

definition saved_ids :: "files \<Rightarrow> pystr list" where
  "saved_ids fs =
     (case state_file fs of Some (Doc st) \<Rightarrow> state_get st ''seen_ids'' [] | _ \<Rightarrow> [])"

text \<open>
  The identifiers of the records that pass the recency and topic filter of a run and are
  not in the set \<open>seen\<close>, before the cap on the items of a run is applied.
\<close>

definition filtered_unseen_ids :: "env \<Rightarrow> pystr set \<Rightarrow> pystr set" where
  "filtered_unseen_ids E seen =
     (case select_papers E 0 (arxiv_results E) of
        Inr papers \<Rightarrow> set (map pid (filter (\<lambda>p. pid p \<notin> seen) papers))
      | Inl e \<Rightarrow> {})"

text \<open>
  The clock reading \<open>nw\<close> minus \<open>hours\<close> hours is a \<open>datetime\<close>: the span is one a
  \<open>timedelta\<close> can hold, and the result lies in the years 1 to 9999.
\<close>

definition threshold_representable :: "int \<Rightarrow> int \<Rightarrow> bool" where
  "threshold_representable hours nw \<longleftrightarrow>
     - 999999999 \<le> hours div 24 \<and> hours div 24 \<le> 999999999
     \<and> 0 \<le> nw - hours * 3600000000 \<and> nw - hours * 3600000000 \<le> 315537897599999999"

text \<open>A text with every newline turned into a space, and nothing else changed.\<close>

definition flattened :: "pystr \<Rightarrow> pystr" where
  "flattened a = map (\<lambda>c. if c = 10 then 32 else c) a"

text \<open>A string occurs in another one: as a contiguous part of it.\<close>

definition occurs_in :: "pystr \<Rightarrow> pystr \<Rightarrow> bool" where
  "occurs_in needle hay \<longleftrightarrow> (\<exists>ps ss. hay = ps @ needle @ ss)"

text \<open>
  \<open>list(s)\<close> on a set \<open>s\<close> lists every element of \<open>s\<close> once, in an order the
  language does not fix.
\<close>

definition enumerates :: "(pystr set \<Rightarrow> pystr list) \<Rightarrow> pystr set \<Rightarrow> bool" where
  "enumerates f S \<longleftrightarrow> set (f S) = S \<and> distinct (f S)"

section \<open>An example run\<close>

text \<open>
  A state file that knows one paper and a catalog answer of five records: the known one,
  two new ones (the first without an \<open>updated\<close> stamp and with a naive \<open>published\<close>
  stamp), one that is too old and one with a blacklisted title. Times are in microseconds;
  the clock stands at hour 17751000 of the calendar, 2026-01-10 00:00, in a zone eight hours
  ahead of UTC. No key for the completion service is set, sets are enumerated in sorted
  order, printing works, and the tree library accepts a text without control characters
  other than tab, line feed and carriage return.
\<close>

definition no_control_chars :: "pystr \<Rightarrow> bool" where
  "no_control_chars s = list_all (\<lambda>c. c = 9 \<or> c = 10 \<or> c = 13 \<or> 32 \<le> c) s"

definition ascii_lower :: "pystr \<Rightarrow> pystr" where
  "ascii_lower s = map (\<lambda>c. if 65 \<le> c \<and> c \<le> 90 then c + 32 else c) s"

definition hour :: "int \<Rightarrow> int" where
  "hour h = h * 3600000000"

definition paper1 :: paper where
  "paper1 = \<lparr> pid = ascii ''2501.00001'', title = ascii ''Monsoon onset'',
     summary = ascii ''A study.'', authors = [ascii ''A. One''],
     updated = Some (DT (hour 17750990) (Some 0)),
     published = Some (DT (hour 17750900) (Some 0)),
     link = ascii ''https://arxiv.org/abs/2501.00001'' \<rparr>"

definition paper2 :: paper where
  "paper2 = \<lparr> pid = ascii ''2501.00002'', title = ascii ''Rain nowcasting'',
     summary = ascii ''We use ERA5'' @ [10] @ ascii ''data. It works.'' @ [10]
                 @ ascii ''Really. Yes. No'',
     authors = map ascii [''A'', ''B'', ''C'', ''D'', ''E'', ''F'', ''G'', ''H'', ''I'', ''J''],
     updated = None, published = Some (DT (hour 17750980) None),
     link = ascii ''https://arxiv.org/abs/2501.00002'' \<rparr>"

definition paper3 :: paper where
  "paper3 = \<lparr> pid = ascii ''2501.00003'', title = ascii ''Typhoon tracks'',
     summary = ascii ''Tracks.'', authors = [],
     updated = Some (DT (hour 17750970) (Some 0)), published = None,
     link = ascii ''https://arxiv.org/abs/2501.00003'' \<rparr>"

definition paper4 :: paper where
  "paper4 = \<lparr> pid = ascii ''2501.00004'', title = ascii ''Old climate'',
     summary = ascii ''Old.'', authors = [ascii ''D. Four''],
     updated = Some (DT (hour 17750100) (Some 0)),
     published = Some (DT (hour 17750100) (Some 0)),
     link = ascii ''https://arxiv.org/abs/2501.00004'' \<rparr>"

definition paper5 :: paper where
  "paper5 = \<lparr> pid = ascii ''2501.00005'', title = ascii ''A String Theory of weather'',
     summary = ascii ''Strings.'', authors = [ascii ''E. Five''],
     updated = Some (DT (hour 17750991) (Some 0)), published = None,
     link = ascii ''https://arxiv.org/abs/2501.00005'' \<rparr>"

definition example_env :: env where
  "example_env = \<lparr>
     LOOKBACK_HOURS = 36, MAX_ITEMS_PER_RUN = 20, DEEPSEEK_API_KEY = None,
     str_lower = ascii_lower, list_of_set = sorted_list_of_set,
     now = (\<lambda>i. DT (hour 17751000) (Some (hour 8))),
     arxiv_results = Yield paper1 (Yield paper2 (Yield paper3 (Yield paper4 (Yield paper5 Stop)))),
     deepseek_chat = (\<lambda>t a. Inl APIConnectionError),
     print_error = (\<lambda>e. None), xml_compatible = no_control_chars \<rparr>"

text \<open>The items that \<open>main\<close> builds for the two new records when no key is set.\<close>

definition item2 :: item where
  "item2 = \<lparr> it_guid = pid paper2, it_title = title paper2, it_link = link paper2,
     it_authors = authors paper2, it_pubDate = Some (DT (hour 17750980) None),
     it_summary_html =
       py_replace_char 10 (ascii ''<br/>'') (fallback_summary ascii_lower (summary paper2)) \<rparr>"

definition item3 :: item where
  "item3 = \<lparr> it_guid = pid paper3, it_title = title paper3, it_link = link paper3,
     it_authors = authors paper3, it_pubDate = Some (DT (hour 17750970) (Some 0)),
     it_summary_html =
       py_replace_char 10 (ascii ''<br/>'') (fallback_summary ascii_lower (summary paper3)) \<rparr>"

text \<open>An item with ten authors, as \<open>main\<close> hands it to the renderer.\<close>

definition example_item :: item where
  "example_item = \<lparr> it_guid = ascii ''2501.00002'', it_title = ascii ''Rain nowcasting'',
     it_link = ascii ''https://arxiv.org/abs/2501.00002'',
     it_authors = map ascii [''A'', ''B'', ''C'', ''D'', ''E'', ''F'', ''G'', ''H'', ''I'', ''J''],
     it_pubDate = Some (DT (hour 17750980) None), it_summary_html = ascii ''Digest.'' \<rparr>"

text \<open>
  The same surroundings with a key for the completion service, whose call fails, and a
  standard output that cannot encode the line the handler prints.
\<close>

definition broken_stdout_env :: env where
  "broken_stdout_env = example_env\<lparr>DEEPSEEK_API_KEY := Some (ascii ''sk-1''),
     print_error := (\<lambda>e. Some UnicodeEncodeError)\<rparr>"

text \<open>The same surroundings with the cap on the items of a run set to one.\<close>

definition capped_env :: env where
  "capped_env = example_env\<lparr>MAX_ITEMS_PER_RUN := 1\<rparr>"



definition example_files :: files where
  "example_files = \<lparr> state_file = Some (Doc [''seen_ids'' \<mapsto> [ascii ''2501.00001'']]),
                      output_file = None \<rparr>"

section \<open>Properties of the filter\<close>

lemma py_in_iff_sublist: "py_in needle hay \<longleftrightarrow> (\<exists>ps ss. hay = ps @ needle @ ss)"
proof (induction hay)
  case Nil
  then show ?case by auto
next
  case (Cons c cs)
  show ?case
  proof
    assume "py_in needle (c # cs)"
    then consider "prefix needle (c # cs)" | "py_in needle cs" by auto
    then show "\<exists>ps ss. c # cs = ps @ needle @ ss"
    proof cases
      case 1
      then obtain ss where "c # cs = needle @ ss" by (auto simp: prefix_def)
      then have "c # cs = [] @ needle @ ss" by simp
      then show ?thesis by blast
    next
      case 2
      with Cons.IH obtain ps ss where "cs = ps @ needle @ ss" by blast
      then have "c # cs = (c # ps) @ needle @ ss" by simp
      then show ?thesis by blast
    qed
  next
    assume "\<exists>ps ss. c # cs = ps @ needle @ ss"
    then obtain ps ss where eq: "c # cs = ps @ needle @ ss" by blast
    show "py_in needle (c # cs)"
    proof (cases ps)
      case Nil
      with eq have "prefix needle (c # cs)" by (simp add: prefix_def)
      then show ?thesis by simp
    next
      case (Cons p ps')
      with eq have "cs = ps' @ needle @ ss" by simp
      with Cons.IH have "py_in needle cs" by blast
      then show ?thesis by simp
    qed
  qed
qed

lemma threshold_overflow:
  "\<not> threshold_representable hours nw \<Longrightarrow> within_lookback hours (DT nw off) r = Inl OverflowError"
  by (auto simp: threshold_representable_def within_lookback_def timedelta_hours_def dt_sub_def
      DATETIME_MAX_def Let_def)

lemma within_lookback_Some:
  assumes "updated_or_published r = Some ts" and "threshold_representable hours nw"
  shows "within_lookback hours (DT nw (Some noff)) r
               = Inr (instant ts \<ge> (nw - noff) - hours * 3600000000)"
proof (cases ts)
  case (DT w off)
  then show ?thesis using assms
    by (cases off)
       (auto simp: threshold_representable_def within_lookback_def instant_def dt_sub_def
          timedelta_hours_def replace_tzinfo_utc_def DATETIME_MAX_def Let_def)
qed

text \<open>
  Claim C3, as the code has it. For a record with at least one timestamp,
  \<open>within_lookback\<close> returns whenever the current time minus the lookback hours is a
  \<open>datetime\<close>, and then it returns true exactly when the record's \<open>updated\<close>
  timestamp, or its \<open>published\<close> timestamp when \<open>updated\<close> is absent, read as UTC when
  it carries no timezone, is not earlier than the current time in the configured timezone
  minus the lookback hours. When that difference is not a \<open>datetime\<close> the call raises
  \<open>OverflowError\<close>.
\<close>

theorem within_lookback_iff:
  assumes "updated r \<noteq> None \<or> published r \<noteq> None"
  shows "\<exists>ts. (updated r = Some ts \<or> updated r = None \<and> published r = Some ts)
           \<and> within_lookback hours (DT nw (Some noff)) r
               = (if threshold_representable hours nw
                  then Inr (instant ts \<ge> (nw - noff) - hours * 3600000000)
                  else Inl OverflowError)"
proof -
  from assms obtain ts where sel: "updated r = Some ts \<or> updated r = None \<and> published r = Some ts"
    by (cases "updated r") auto
  then have ts: "updated_or_published r = Some ts"
    by (auto simp: updated_or_published_def)
  have "within_lookback hours (DT nw (Some noff)) r
               = (if threshold_representable hours nw
                  then Inr (instant ts \<ge> (nw - noff) - hours * 3600000000)
                  else Inl OverflowError)"
    using within_lookback_Some[OF ts] threshold_overflow by simp
  with sel show ?thesis by blast
qed

lemma example_threshold: "threshold_representable 36 (hour 17751000)"
  by (simp add: threshold_representable_def hour_def)

theorem within_lookback_iff_witness:
  "within_lookback 36 (DT (hour 17751000) (Some (hour 8))) paper2 = Inr True
   \<and> within_lookback 36 (DT (hour 17751000) (Some (hour 8))) paper4 = Inr False"
proof -
  have 2: "updated paper2 \<noteq> None \<or> published paper2 \<noteq> None" by (simp add: paper2_def)
  have 4: "updated paper4 \<noteq> None \<or> published paper4 \<noteq> None" by (simp add: paper4_def)
  from within_lookback_iff[OF 2, of 36 "hour 17751000" "hour 8"] example_threshold
  have "within_lookback 36 (DT (hour 17751000) (Some (hour 8))) paper2 = Inr True"
    by (auto simp: paper2_def instant_def hour_def)
  moreover from within_lookback_iff[OF 4, of 36 "hour 17751000" "hour 8"] example_threshold
  have "within_lookback 36 (DT (hour 17751000) (Some (hour 8))) paper4 = Inr False"
    by (auto simp: paper4_def instant_def hour_def)
  ultimately show ?thesis by simp
qed

text \<open>
  Claim C3 as the specification words it fails: with a lookback of 1000000000 hours the
  \<open>published\<close> timestamp of the second record is later than the current time minus the
  lookback, and the call raises instead of returning true.
\<close>

theorem within_lookback_overflow_counterexample:
  "updated paper2 = None \<and> published paper2 = Some (DT (hour 17750980) None)
   \<and> instant (DT (hour 17750980) None) \<ge> (hour 17751000 - hour 8) - 1000000000 * 3600000000
   \<and> within_lookback 1000000000 (DT (hour 17751000) (Some (hour 8))) paper2 = Inl OverflowError"
  by (simp add: paper2_def instant_def hour_def within_lookback_def timedelta_hours_def
      dt_sub_def DATETIME_MAX_def)

text \<open>
  Claim C4. \<open>topic_ok\<close> is false exactly when some blacklist term, lower-cased, occurs
  as a contiguous part of the lower-cased concatenation of the title, one space and the
  abstract.
\<close>

theorem topic_ok_iff:
  "topic_ok lower r = False \<longleftrightarrow>
     (\<exists>b \<in> set BLACKLIST_TERMS. \<exists>ps ss. lower (title r @ ascii '' '' @ summary r) = ps @ lower b @ ss)"
  by (simp add: topic_ok_def list_ex_iff py_in_iff_sublist Let_def)

lemma topic_ok_paper5: "topic_ok ascii_lower paper5 = False"
  by (simp add: topic_ok_def paper5_def ascii_def ascii_lower_def BLACKLIST_TERMS_def)

lemma topic_ok_paper2: "topic_ok ascii_lower paper2 = True"
  by (simp add: topic_ok_def paper2_def ascii_def ascii_lower_def BLACKLIST_TERMS_def)

theorem topic_ok_iff_witness:
  "(\<exists>b \<in> set BLACKLIST_TERMS. \<exists>ps ss.
       ascii_lower (title paper5 @ ascii '' '' @ summary paper5) = ps @ ascii_lower b @ ss)
   \<and> \<not> (\<exists>b \<in> set BLACKLIST_TERMS. \<exists>ps ss.
       ascii_lower (title paper2 @ ascii '' '' @ summary paper2) = ps @ ascii_lower b @ ss)"
  using topic_ok_iff[of ascii_lower paper5] topic_ok_iff[of ascii_lower paper2]
    topic_ok_paper5 topic_ok_paper2
  by simp

section \<open>What a completed run has done\<close>

lemma length_slice_last: "length (slice_last n xs) \<le> n"
  by (simp add: slice_last_def)

lemma set_slice_last: "set (slice_last n xs) \<subseteq> set xs"
  by (simp add: slice_last_def set_drop_subset)

lemma slice_last_short: "length xs \<le> n \<Longrightarrow> slice_last n xs = xs"
  by (simp add: slice_last_def)

lemma set_slice_to: "set (slice_to n xs) \<subseteq> set xs"
  by (auto simp: slice_to_def dest: in_set_takeD)

lemma slice_to_nonneg: "0 \<le> n \<Longrightarrow> slice_to n xs = take (nat n) xs"
  by (simp add: slice_to_def)

lemma slice_to_prefix: "prefix (slice_to n xs) xs"
  by (simp add: slice_to_def take_is_prefix)

lemma fresh_papers_unseen: "p \<in> set (fresh_papers E seen papers) \<Longrightarrow> pid p \<notin> seen"
proof -
  assume "p \<in> set (fresh_papers E seen papers)"
  then have "p \<in> set (filter (\<lambda>p. pid p \<notin> seen) papers)"
    unfolding fresh_papers_def using set_slice_to by fastforce
  then show ?thesis by simp
qed

lemma make_item_fields:
  "make_item E p = Inr it \<Longrightarrow>
     it_guid it = pid p \<and> it_authors it = authors p \<and> it_pubDate it = updated_or_published p"
  by (auto simp: make_item_def split: sum.splits)

lemma make_items_fields:
  "make_items E ps = Inr its \<Longrightarrow>
     map it_guid its = map pid ps \<and> map it_authors its = map authors ps"
proof (induction ps arbitrary: its)
  case Nil
  then show ?case by simp
next
  case (Cons p ps)
  from Cons.prems obtain it its' where it: "make_item E p = Inr it"
    and its': "make_items E ps = Inr its'" and its: "its = it # its'"
    by (auto split: sum.splits)
  from Cons.IH[OF its'] make_item_fields[OF it] its show ?case by simp
qed

lemma render_entry_fields:
  "render_entry it = Inr fe \<Longrightarrow> fe_id fe = it_guid it \<and> fe_description fe = desc_html it"
  by (auto simp: render_entry_def split: sum.splits)

lemma add_items_entries:
  "add_items fg its = Inr fg' \<Longrightarrow>
     map fe_id (fg_entries fg') = rev (map it_guid its) @ map fe_id (fg_entries fg)
     \<and> map fe_description (fg_entries fg')
          = rev (map desc_html its) @ map fe_description (fg_entries fg)"
proof (induction its arbitrary: fg)
  case Nil
  then show ?case by simp
next
  case (Cons it its)
  from Cons.prems obtain fe where fe: "render_entry it = Inr fe"
    and rest: "add_items (add_entry add_entry_default_order fe fg) its = Inr fg'"
    by (auto split: sum.splits)
  from Cons.IH[OF rest] render_entry_fields[OF fe]
  show ?case by (simp add: add_entry_def add_entry_default_order_def)
qed

lemma build_rss_entries:
  assumes "build_rss ok ch its = Inr rss"
  shows "map fe_id (fg_entries rss) = rev (map it_guid its)
     \<and> map fe_description (fg_entries rss) = rev (map desc_html its)"
proof -
  let ?fg = "\<lparr> fg_title = ch_title ch, fg_link = ch_link ch,
                 fg_description = ch_description ch, fg_language = ascii ''zh-CN'',
                 fg_entries = [] \<rparr>"
  from assms obtain fg' where a: "add_items ?fg its = Inr fg'" and r: "rss_str ok fg' = Inr rss"
    by (auto simp: build_rss_def split: sum.splits)
  from r have "rss = fg'" by (auto simp: rss_str_def split: if_splits)
  with add_items_entries[OF a] show ?thesis by simp
qed

lemma main_returns:
  assumes "ensure_state fs = (Inr st, fs1)"
    and "select_papers E 0 (arxiv_results E) = Inr papers"
    and "make_items E (fresh_papers E (set (state_get st ''seen_ids'' [])) papers) = Inr its"
    and "build_rss (xml_compatible E) RSS_CHANNEL its = Inr rss"
  shows "main E fs =
           (Inr (length its),
            \<lparr> state_file = Some (Doc (st(''seen_ids'' \<mapsto>
                 slice_last 5000 (list_of_set E (set (state_get st ''seen_ids'' [])
                   \<union> set (map pid (fresh_papers E (set (state_get st ''seen_ids'' [])) papers))))))),
              output_file = Some rss \<rparr>)"
proof -
  obtain sf outf where "fs1 = \<lparr> state_file = sf, output_file = outf \<rparr>"
    by (cases fs1) simp
  with assms show ?thesis
    by (simp add: main_def Let_def save_state_def)
qed

lemma main_completes:
  assumes "fst (main E fs) = Inr n"
  obtains st fs1 papers its rss where
    "ensure_state fs = (Inr st, fs1)"
    "select_papers E 0 (arxiv_results E) = Inr papers"
    "make_items E (fresh_papers E (set (state_get st ''seen_ids'' [])) papers) = Inr its"
    "build_rss (xml_compatible E) RSS_CHANNEL its = Inr rss"
proof (cases "ensure_state fs")
  case (Pair r fs1)
  show ?thesis
  proof (cases r)
    case (Inl e)
    with Pair assms show ?thesis by (simp add: main_def)
  next
    case st: (Inr st)
    show ?thesis
    proof (cases "select_papers E 0 (arxiv_results E)")
      case (Inl e)
      with Pair st assms show ?thesis by (simp add: main_def)
    next
      case sel: (Inr papers)
      show ?thesis
      proof (cases "make_items E (fresh_papers E (set (state_get st ''seen_ids'' [])) papers)")
        case (Inl e)
        with Pair st sel assms show ?thesis by (simp add: main_def Let_def)
      next
        case its: (Inr its)
        show ?thesis
        proof (cases "build_rss (xml_compatible E) RSS_CHANNEL its")
          case (Inl e)
          with Pair st sel its assms show ?thesis by (simp add: main_def Let_def)
        next
          case (Inr rss)
          with Pair st sel its that show ?thesis by blast
        qed
      qed
    qed
  qed
qed

lemma completed_run:
  assumes "fst (main E fs) = Inr n"
  obtains st fs1 papers where
    "ensure_state fs = (Inr st, fs1)"
    "select_papers E 0 (arxiv_results E) = Inr papers"
    "n = length (fresh_papers E (set (state_get st ''seen_ids'' [])) papers)"
    "map fe_id (emitted E fs)
       = rev (map pid (fresh_papers E (set (state_get st ''seen_ids'' [])) papers))"
    "state_file (snd (main E fs)) = Some (Doc (st(''seen_ids'' \<mapsto>
       slice_last 5000 (list_of_set E (set (state_get st ''seen_ids'' [])
         \<union> set (map pid (fresh_papers E (set (state_get st ''seen_ids'' [])) papers)))))))"
proof -
  from main_completes[OF assms] obtain st fs1 papers its rss where
    r: "ensure_state fs = (Inr st, fs1)"
       "select_papers E 0 (arxiv_results E) = Inr papers"
       "make_items E (fresh_papers E (set (state_get st ''seen_ids'' [])) papers) = Inr its"
       "build_rss (xml_compatible E) RSS_CHANNEL its = Inr rss"
    by blast
  note m = main_returns[OF r]
  have ids: "map it_guid its = map pid (fresh_papers E (set (state_get st ''seen_ids'' [])) papers)"
    using make_items_fields[OF r(3)] by simp
  then have len: "length its = length (fresh_papers E (set (state_get st ''seen_ids'' [])) papers)"
    by (metis length_map)
  have n: "n = length (fresh_papers E (set (state_get st ''seen_ids'' [])) papers)"
    using assms m len by simp
  have "emitted E fs = fg_entries rss" using m by (simp add: emitted_def)
  then have e: "map fe_id (emitted E fs)
       = rev (map pid (fresh_papers E (set (state_get st ''seen_ids'' [])) papers))"
    using build_rss_entries[OF r(4)] ids by simp
  have s: "state_file (snd (main E fs)) = Some (Doc (st(''seen_ids'' \<mapsto>
       slice_last 5000 (list_of_set E (set (state_get st ''seen_ids'' [])
         \<union> set (map pid (fresh_papers E (set (state_get st ''seen_ids'' [])) papers)))))))"
    using m by simp
  from that[OF r(1) r(2) n e s] show ?thesis .
qed

lemma aborted_run: "fst (main E fs) = Inl e \<Longrightarrow> emitted E fs = []"
  by (cases "main E fs") (simp add: emitted_def)

lemma saved_ids_run:
  assumes "state_file fs' = Some (Doc (st(''seen_ids'' \<mapsto> ids)))"
  shows "saved_ids fs' = ids"
  using assms by (simp add: saved_ids_def state_get_def)

section \<open>The example run\<close>

lemma example_ensure_state:
  "ensure_state example_files = (Inr [''seen_ids'' \<mapsto> [ascii ''2501.00001'']], example_files)"
  by (simp add: ensure_state_def example_files_def)

lemma example_select_papers:
  "select_papers example_env 0 (arxiv_results example_env) = Inr [paper1, paper2, paper3]"
  by (simp add: example_env_def within_lookback_def updated_or_published_def dt_sub_def
      timedelta_hours_def DATETIME_MAX_def replace_tzinfo_utc_def hour_def topic_ok_def
      BLACKLIST_TERMS_def ascii_def ascii_lower_def
      paper1_def paper2_def paper3_def paper4_def paper5_def)

lemma example_fresh:
  "fresh_papers example_env {ascii ''2501.00001''} [paper1, paper2, paper3] = [paper2, paper3]"
  by (simp add: fresh_papers_def slice_to_def example_env_def paper1_def paper2_def paper3_def ascii_def)

lemma example_summary2:
  "fallback_summary ascii_lower (summary paper2)
     = ascii ''We use ERA5 data. It works. Really'' @ POINTS_HEADER @ BULLET_DATA"
  by (simp add: fallback_summary_def fallback_head_def fallback_bullets_def split_dot_space_def
      py_replace_char_def paper2_def ascii_def ascii_lower_def)

lemma example_summary3:
  "fallback_summary ascii_lower (summary paper3)
     = ascii ''Tracks.'' @ POINTS_HEADER @ BULLET_GENERIC"
  by (simp add: fallback_summary_def fallback_head_def fallback_bullets_def split_dot_space_def
      py_replace_char_def paper3_def ascii_def ascii_lower_def)

lemma example_key: "DEEPSEEK_API_KEY example_env = None" "str_lower example_env = ascii_lower"
  by (simp_all add: example_env_def)

lemma example_make_item2: "make_item example_env paper2 = Inr item2"
  by (simp add: make_item_def summarize_def example_key item2_def updated_or_published_def)
     (simp add: paper2_def)

lemma example_make_item3: "make_item example_env paper3 = Inr item3"
  by (simp add: make_item_def summarize_def example_key item3_def updated_or_published_def)
     (simp add: paper3_def)

lemma example_make_items: "make_items example_env [paper2, paper3] = Inr [item2, item3]"
  by (simp add: example_make_item2 example_make_item3)

lemma example_desc_html:
  "no_control_chars (desc_html item2)" "no_control_chars (desc_html item3)"
  by (simp_all add: desc_html_def author_line_def item2_def item3_def
        example_summary2 example_summary3)
     (simp_all add: no_control_chars_def py_replace_char_def POINTS_HEADER_def BULLET_DATA_def
        BULLET_GENERIC_def paper2_def paper3_def ascii_def)

lemma example_texts:
  "no_control_chars (it_guid item2)" "no_control_chars (it_guid item3)"
  "no_control_chars (it_title item2)" "no_control_chars (it_title item3)"
  "no_control_chars (it_link item2)" "no_control_chars (it_link item3)"
  "no_control_chars (ch_title RSS_CHANNEL)" "no_control_chars (ch_link RSS_CHANNEL)"
  "no_control_chars (ch_description RSS_CHANNEL)" "no_control_chars (ascii ''zh-CN'')"
  by (simp_all add: no_control_chars_def item2_def item3_def
      RSS_CHANNEL_def paper2_def paper3_def ascii_def)

lemma example_build:
  "\<exists>rss. build_rss (xml_compatible example_env) RSS_CHANNEL [item2, item3] = Inr rss"
proof -
  have x: "xml_compatible example_env = no_control_chars" by (simp add: example_env_def)
  have p: "it_pubDate item2 = Some (DT (hour 17750980) None)"
    "it_pubDate item3 = Some (DT (hour 17750970) (Some 0))"
    by (simp_all add: item2_def item3_def)
  show ?thesis
    unfolding x
    by (simp add: build_rss_def render_entry_def to_rfc822_def p add_entry_def
        add_entry_default_order_def rss_str_def feed_texts_def entry_texts_def example_texts example_desc_html)
qed

lemma example_main: "fst (main example_env example_files) = Inr 2"
proof -
  from example_build obtain rss where
    rss: "build_rss (xml_compatible example_env) RSS_CHANNEL [item2, item3] = Inr rss" by blast
  have m: "make_items example_env (fresh_papers example_env
             (set (state_get [''seen_ids'' \<mapsto> [ascii ''2501.00001'']] ''seen_ids'' []))
             [paper1, paper2, paper3]) = Inr [item2, item3]"
    by (simp add: state_get_def example_fresh example_make_item2 example_make_item3)
  from main_returns[OF example_ensure_state example_select_papers m rss]
  show ?thesis by simp
qed

lemma example_emitted:
  "map fe_id (emitted example_env example_files) = [ascii ''2501.00003'', ascii ''2501.00002'']"
proof -
  from completed_run[OF example_main] obtain st fs1 papers where
    r: "ensure_state example_files = (Inr st, fs1)"
       "select_papers example_env 0 (arxiv_results example_env) = Inr papers"
       "map fe_id (emitted example_env example_files)
          = rev (map pid (fresh_papers example_env (set (state_get st ''seen_ids'' [])) papers))"
    by blast
  from r(1) example_ensure_state have st: "st = [''seen_ids'' \<mapsto> [ascii ''2501.00001'']]" by simp
  from r(2) example_select_papers have ps: "papers = [paper1, paper2, paper3]" by simp
  have "fresh_papers example_env (set (state_get st ''seen_ids'' [])) papers = [paper2, paper3]"
    unfolding st ps by (simp add: state_get_def example_fresh)
  with r(3) show ?thesis by (simp add: paper2_def paper3_def)
qed

lemma example_loaded_seen: "loaded_seen example_files = {ascii ''2501.00001''}"
  by (simp add: loaded_seen_def example_ensure_state state_get_def)

section \<open>Properties of a run\<close>

text \<open>
  Claim C2. No entry of the feed that a run writes has as its GUID an identifier that was
  in the seen state the run loaded.
\<close>

theorem seen_never_reemitted: "\<forall>e \<in> set (emitted E fs). fe_id e \<notin> loaded_seen fs"
proof (cases "fst (main E fs)")
  case (Inl e)
  then show ?thesis by (simp add: aborted_run)
next
  case (Inr n)
  obtain st fs1 papers where
    r: "ensure_state fs = (Inr st, fs1)"
       "select_papers E 0 (arxiv_results E) = Inr papers"
       "n = length (fresh_papers E (set (state_get st ''seen_ids'' [])) papers)"
       "map fe_id (emitted E fs)
          = rev (map pid (fresh_papers E (set (state_get st ''seen_ids'' [])) papers))"
       "state_file (snd (main E fs)) = Some (Doc (st(''seen_ids'' \<mapsto>
          slice_last 5000 (list_of_set E (set (state_get st ''seen_ids'' [])
            \<union> set (map pid (fresh_papers E (set (state_get st ''seen_ids'' [])) papers)))))))"
    by (rule completed_run[OF Inr])
  let ?seen = "set (state_get st ''seen_ids'' [])"
  have seen: "loaded_seen fs = ?seen" using r(1) by (simp add: loaded_seen_def)
  show ?thesis
  proof
    fix e assume "e \<in> set (emitted E fs)"
    then have "fe_id e \<in> set (map fe_id (emitted E fs))" by simp
    then have "fe_id e \<in> set (map pid (fresh_papers E ?seen papers))"
      unfolding r(4) by simp
    then obtain p where "p \<in> set (fresh_papers E ?seen papers)" "fe_id e = pid p" by auto
    with fresh_papers_unseen seen show "fe_id e \<notin> loaded_seen fs" by metis
  qed
qed

theorem seen_never_reemitted_witness:
  "map fe_id (emitted example_env example_files) = [ascii ''2501.00003'', ascii ''2501.00002'']
   \<and> loaded_seen example_files = {ascii ''2501.00001''}
   \<and> ascii ''2501.00003'' \<notin> loaded_seen example_files
   \<and> ascii ''2501.00002'' \<notin> loaded_seen example_files"
proof -
  have "\<forall>x \<in> set (map fe_id (emitted example_env example_files)). x \<notin> loaded_seen example_files"
    using seen_never_reemitted[of example_env example_files] by simp
  then show ?thesis
    unfolding example_emitted using example_loaded_seen by simp
qed

text \<open>
  Claim C6. After a run that completes, the state file holds a \<open>seen_ids\<close> list of at
  most 5000 identifiers, whatever the number of identifiers seen before and added now.
\<close>

theorem saved_ids_capped:
  "fst (main E fs) = Inr n \<Longrightarrow>
     \<exists>st ids. state_file (snd (main E fs)) = Some (Doc st) \<and> st ''seen_ids'' = Some ids
        \<and> length ids \<le> 5000"
proof -
  assume a: "fst (main E fs) = Inr n"
  obtain st fs1 papers where
    r: "ensure_state fs = (Inr st, fs1)"
       "select_papers E 0 (arxiv_results E) = Inr papers"
       "n = length (fresh_papers E (set (state_get st ''seen_ids'' [])) papers)"
       "map fe_id (emitted E fs)
          = rev (map pid (fresh_papers E (set (state_get st ''seen_ids'' [])) papers))"
       "state_file (snd (main E fs)) = Some (Doc (st(''seen_ids'' \<mapsto>
          slice_last 5000 (list_of_set E (set (state_get st ''seen_ids'' [])
            \<union> set (map pid (fresh_papers E (set (state_get st ''seen_ids'' [])) papers)))))))"
    by (rule completed_run[OF a])
  from r(5) show ?thesis by (auto simp: length_slice_last)
qed

theorem saved_ids_capped_witness:
  "fst (main example_env example_files) = Inr 2
   \<and> (\<exists>st ids. state_file (snd (main example_env example_files)) = Some (Doc st)
         \<and> st ''seen_ids'' = Some ids \<and> length ids \<le> 5000)"
  using saved_ids_capped[OF example_main] example_main by blast

text \<open>
  Claim C1, as the code has it. The identifiers that a completed run saves are drawn from
  the seen state it loaded and the GUIDs of the entries it wrote to the feed, and they are
  exactly those when there are at most 5000 of them. The records that the cap on the items
  of a run drops are not among them.
\<close>

theorem saved_ids_rendered:
  assumes "fst (main E fs) = Inr n"
    and "enumerates (list_of_set E) (loaded_seen fs \<union> set (map fe_id (emitted E fs)))"
  shows "set (saved_ids (snd (main E fs))) \<subseteq> loaded_seen fs \<union> set (map fe_id (emitted E fs))
     \<and> (card (loaded_seen fs \<union> set (map fe_id (emitted E fs))) \<le> 5000 \<longrightarrow>
          set (saved_ids (snd (main E fs))) = loaded_seen fs \<union> set (map fe_id (emitted E fs)))"
proof -
  obtain st fs1 papers where
    r: "ensure_state fs = (Inr st, fs1)"
       "select_papers E 0 (arxiv_results E) = Inr papers"
       "n = length (fresh_papers E (set (state_get st ''seen_ids'' [])) papers)"
       "map fe_id (emitted E fs)
          = rev (map pid (fresh_papers E (set (state_get st ''seen_ids'' [])) papers))"
       "state_file (snd (main E fs)) = Some (Doc (st(''seen_ids'' \<mapsto>
          slice_last 5000 (list_of_set E (set (state_get st ''seen_ids'' [])
            \<union> set (map pid (fresh_papers E (set (state_get st ''seen_ids'' [])) papers)))))))"
    by (rule completed_run[OF assms(1)])
  let ?U = "loaded_seen fs \<union> set (map fe_id (emitted E fs))"
  let ?l = "list_of_set E ?U"
  have seen: "loaded_seen fs = set (state_get st ''seen_ids'' [])"
    using r(1) by (simp add: loaded_seen_def)
  have saved: "saved_ids (snd (main E fs)) = slice_last 5000 ?l"
    unfolding saved_ids_run[OF r(5)] r(4) seen by simp
  from assms(2) have l: "set ?l = ?U" "distinct ?l" by (simp_all add: enumerates_def)
  have sub: "set (saved_ids (snd (main E fs))) \<subseteq> ?U"
    unfolding saved using set_slice_last[of 5000 ?l] l(1) by simp
  have "set (saved_ids (snd (main E fs))) = ?U" if "card ?U \<le> 5000"
  proof -
    have "length ?l = card ?U" using l distinct_card by metis
    with that have "slice_last 5000 ?l = ?l" by (simp add: slice_last_short)
    with saved l(1) show ?thesis by simp
  qed
  with sub show ?thesis by blast
qed

lemma enumerates_sorted: "finite S \<Longrightarrow> enumerates sorted_list_of_set S"
  by (simp add: enumerates_def)

lemma example_list_of_set: "list_of_set example_env = sorted_list_of_set"
  by (simp add: example_env_def)

theorem saved_ids_rendered_witness:
  "fst (main example_env example_files) = Inr 2
   \<and> set (saved_ids (snd (main example_env example_files)))
       = {ascii ''2501.00001'', ascii ''2501.00002'', ascii ''2501.00003''}"
proof -
  let ?U = "loaded_seen example_files \<union> set (map fe_id (emitted example_env example_files))"
  have U: "?U = set [ascii ''2501.00001'', ascii ''2501.00003'', ascii ''2501.00002'']"
    unfolding example_loaded_seen example_emitted by auto
  have "finite ?U" unfolding U by (rule finite_set)
  then have en: "enumerates (list_of_set example_env) ?U"
    unfolding example_list_of_set by (rule enumerates_sorted)
  have "card ?U \<le> 3" unfolding U using card_length[of "[ascii ''2501.00001'', ascii ''2501.00003'', ascii ''2501.00002'']"] by simp
  then have "card ?U \<le> 5000" by simp
  with saved_ids_rendered[OF example_main en]
  have "set (saved_ids (snd (main example_env example_files))) = ?U" by blast
  with U example_main show ?thesis by auto
qed

lemma example_pubDate:
  "it_pubDate item2 = Some (DT (hour 17750980) None)"
  "it_pubDate item3 = Some (DT (hour 17750970) (Some 0))"
  by (simp_all add: item2_def item3_def)

lemma capped_fields:
  "list_of_set capped_env = sorted_list_of_set" "xml_compatible capped_env = no_control_chars"
  "DEEPSEEK_API_KEY capped_env = None" "str_lower capped_env = ascii_lower"
  by (simp_all add: capped_env_def example_env_def)

lemma capped_select_papers:
  "select_papers capped_env 0 (arxiv_results capped_env) = Inr [paper1, paper2, paper3]"
  by (simp add: capped_env_def example_env_def within_lookback_def updated_or_published_def
      dt_sub_def timedelta_hours_def DATETIME_MAX_def replace_tzinfo_utc_def hour_def
      topic_ok_def BLACKLIST_TERMS_def ascii_def ascii_lower_def
      paper1_def paper2_def paper3_def paper4_def paper5_def)

lemma capped_fresh:
  "fresh_papers capped_env {ascii ''2501.00001''} [paper1, paper2, paper3] = [paper2]"
  by (simp add: fresh_papers_def slice_to_def capped_env_def example_env_def paper1_def paper2_def paper3_def ascii_def)

lemma capped_make_item2: "make_item capped_env paper2 = Inr item2"
  by (simp add: make_item_def summarize_def capped_fields item2_def updated_or_published_def)
     (simp add: paper2_def)

lemma capped_main: "fst (main capped_env example_files) = Inr 1"
proof -
  have "\<exists>rss. build_rss (xml_compatible capped_env) RSS_CHANNEL [item2] = Inr rss"
    unfolding capped_fields
    by (simp add: build_rss_def render_entry_def to_rfc822_def example_pubDate add_entry_def
        add_entry_default_order_def rss_str_def feed_texts_def entry_texts_def
        example_texts example_desc_html)
  then obtain rss where
    rss: "build_rss (xml_compatible capped_env) RSS_CHANNEL [item2] = Inr rss" by blast
  have m: "make_items capped_env (fresh_papers capped_env
             (set (state_get [''seen_ids'' \<mapsto> [ascii ''2501.00001'']] ''seen_ids'' []))
             [paper1, paper2, paper3]) = Inr [item2]"
    by (simp add: state_get_def capped_fresh capped_make_item2)
  from main_returns[OF example_ensure_state capped_select_papers m rss]
  show ?thesis by simp
qed

lemma capped_saved:
  "set (saved_ids (snd (main capped_env example_files))) \<subseteq> {ascii ''2501.00001'', ascii ''2501.00002''}"
proof -
  obtain st fs1 papers where
    r: "ensure_state example_files = (Inr st, fs1)"
       "select_papers capped_env 0 (arxiv_results capped_env) = Inr papers"
       "1 = length (fresh_papers capped_env (set (state_get st ''seen_ids'' [])) papers)"
       "map fe_id (emitted capped_env example_files)
          = rev (map pid (fresh_papers capped_env (set (state_get st ''seen_ids'' [])) papers))"
       "state_file (snd (main capped_env example_files)) = Some (Doc (st(''seen_ids'' \<mapsto>
          slice_last 5000 (list_of_set capped_env (set (state_get st ''seen_ids'' [])
            \<union> set (map pid (fresh_papers capped_env (set (state_get st ''seen_ids'' [])) papers)))))))"
    by (rule completed_run[OF capped_main])
  from r(1) example_ensure_state have st: "st = [''seen_ids'' \<mapsto> [ascii ''2501.00001'']]" by simp
  from r(2) capped_select_papers have ps: "papers = [paper1, paper2, paper3]" by simp
  have "saved_ids (snd (main capped_env example_files))
          = slice_last 5000 (list_of_set capped_env ({ascii ''2501.00001''} \<union> {pid paper2}))"
    unfolding saved_ids_run[OF r(5)] st ps by (simp add: state_get_def capped_fresh)
  then have "set (saved_ids (snd (main capped_env example_files)))
          \<subseteq> set (list_of_set capped_env ({ascii ''2501.00001''} \<union> {pid paper2}))"
    using set_slice_last by simp
  also have "\<dots> = {ascii ''2501.00001''} \<union> {pid paper2}"
    unfolding capped_fields
    using enumerates_sorted[of "{ascii ''2501.00001''} \<union> {pid paper2}"]
    unfolding enumerates_def by blast
  finally show ?thesis by (auto simp: paper2_def)
qed

lemma capped_filtered:
  "filtered_unseen_ids capped_env (loaded_seen example_files) = {ascii ''2501.00002'', ascii ''2501.00003''}"
  unfolding filtered_unseen_ids_def capped_select_papers example_loaded_seen
  by (simp add: paper1_def paper2_def paper3_def ascii_def)

text \<open>
  Claim C1 as the specification words it fails: with a cap of one item, the second new
  record passes the filter and was never seen, yet its identifier is not saved.
\<close>

theorem saved_ids_all_filtered_counterexample:
  "fst (main capped_env example_files) = Inr 1
   \<and> ascii ''2501.00003'' \<in> filtered_unseen_ids capped_env (loaded_seen example_files)
   \<and> ascii ''2501.00003'' \<notin> set (saved_ids (snd (main capped_env example_files)))
   \<and> set (saved_ids (snd (main capped_env example_files)))
        \<noteq> loaded_seen example_files \<union> filtered_unseen_ids capped_env (loaded_seen example_files)"
proof -
  have 1: "ascii ''2501.00003'' \<in> filtered_unseen_ids capped_env (loaded_seen example_files)"
    unfolding capped_filtered by simp
  have "ascii ''2501.00003'' \<notin> {ascii ''2501.00001'', ascii ''2501.00002''}"
    by (simp add: ascii_def)
  with capped_saved have 2: "ascii ''2501.00003'' \<notin> set (saved_ids (snd (main capped_env example_files)))"
    by blast
  from 1 2 capped_main show ?thesis by blast
qed

text \<open>
  Claim C5, as the code has it. In a run that completes, the records turned into feed
  entries are a prefix of the records that passed the filter and are not in the seen state,
  in the order of the catalog, and for a cap that is not negative the prefix of that
  length. The feed holds one entry for each of them, in the reverse of that order: every
  entry is put in front of the ones added before it.
\<close>

theorem fresh_prefix_feed_reversed:
  assumes "fst (main E fs) = Inr n"
    and "select_papers E 0 (arxiv_results E) = Inr papers"
  shows "prefix (fresh_papers E (loaded_seen fs) papers)
                (filter (\<lambda>p. pid p \<notin> loaded_seen fs) papers)
     \<and> (0 \<le> MAX_ITEMS_PER_RUN E \<longrightarrow>
           fresh_papers E (loaded_seen fs) papers
             = take (nat (MAX_ITEMS_PER_RUN E)) (filter (\<lambda>p. pid p \<notin> loaded_seen fs) papers))
     \<and> n = length (fresh_papers E (loaded_seen fs) papers)
     \<and> map fe_id (emitted E fs) = rev (map pid (fresh_papers E (loaded_seen fs) papers))"
proof -
  obtain st fs1 papers' where
    r: "ensure_state fs = (Inr st, fs1)"
       "select_papers E 0 (arxiv_results E) = Inr papers'"
       "n = length (fresh_papers E (set (state_get st ''seen_ids'' [])) papers')"
       "map fe_id (emitted E fs)
          = rev (map pid (fresh_papers E (set (state_get st ''seen_ids'' [])) papers'))"
       "state_file (snd (main E fs)) = Some (Doc (st(''seen_ids'' \<mapsto>
          slice_last 5000 (list_of_set E (set (state_get st ''seen_ids'' [])
            \<union> set (map pid (fresh_papers E (set (state_get st ''seen_ids'' [])) papers')))))))"
    by (rule completed_run[OF assms(1)])
  from r(2) assms(2) have p: "papers' = papers" by simp
  have seen: "loaded_seen fs = set (state_get st ''seen_ids'' [])"
    using r(1) by (simp add: loaded_seen_def)
  from r(3) r(4) show ?thesis
    unfolding p seen by (simp add: fresh_papers_def slice_to_prefix slice_to_nonneg)
qed

theorem fresh_prefix_feed_reversed_witness:
  "fresh_papers example_env (loaded_seen example_files) [paper1, paper2, paper3]
      = take 20 (filter (\<lambda>p. pid p \<notin> loaded_seen example_files) [paper1, paper2, paper3])
   \<and> fst (main example_env example_files) = Inr 2
   \<and> map fe_id (emitted example_env example_files) = [ascii ''2501.00003'', ascii ''2501.00002'']"
proof -
  have "0 \<le> MAX_ITEMS_PER_RUN example_env" "nat (MAX_ITEMS_PER_RUN example_env) = 20"
    by (simp_all add: example_env_def)
  with fresh_prefix_feed_reversed[OF example_main example_select_papers]
  show ?thesis using example_main example_emitted by simp
qed

text \<open>
  Claim C5 as the specification words it fails in its second half: the two new records of
  the example reach the renderer as \<open>2501.00002\<close>, \<open>2501.00003\<close> and leave it as
  \<open>2501.00003\<close>, \<open>2501.00002\<close>.
\<close>

theorem feed_order_counterexample:
  "select_papers example_env 0 (arxiv_results example_env) = Inr [paper1, paper2, paper3]
   \<and> fresh_papers example_env (loaded_seen example_files) [paper1, paper2, paper3]
        = [paper2, paper3]
   \<and> fst (main example_env example_files) = Inr 2
   \<and> map fe_id (emitted example_env example_files) = [pid paper3, pid paper2]
   \<and> map fe_id (emitted example_env example_files) \<noteq> map pid [paper2, paper3]"
proof -
  have "pid paper3 \<noteq> pid paper2" by (simp add: paper2_def paper3_def ascii_def)
  moreover have "map fe_id (emitted example_env example_files) = [pid paper3, pid paper2]"
    using example_emitted by (simp add: paper2_def paper3_def)
  ultimately show ?thesis
    using example_select_papers example_fresh example_loaded_seen example_main by simp
qed

section \<open>Loading the state\<close>




section \<open>The renderer's author line\<close>

text \<open>
  Claim C10. The description of every feed entry starts with the author line, which names
  the first eight authors of the record at most, joined by a comma and a space; the authors
  after the eighth do not appear. The authors of an item are those of its record.
\<close>

theorem author_line_first_eight:
  "(build_rss ok ch its = Inr rss \<longrightarrow>
      map fe_description (fg_entries rss)
        = rev (map (\<lambda>it. ascii ''<p><b>Authors:</b> ''
                     @ py_join (ascii '', '') (take 8 (it_authors it))
                     @ ascii ''</p><p>'' @ it_summary_html it @ ascii ''</p>'') its))
   \<and> (make_item E p = Inr it' \<longrightarrow> it_authors it' = authors p)"
proof -
  have "map fe_description (fg_entries rss) = rev (map desc_html its)"
    if "build_rss ok ch its = Inr rss"
    using build_rss_entries[OF that] by simp
  moreover have "it_authors it' = authors p" if "make_item E p = Inr it'"
    using make_item_fields[OF that] by simp
  ultimately show ?thesis by (simp add: desc_html_def author_line_def)
qed

lemma example_item_build:
  "build_rss no_control_chars RSS_CHANNEL [example_item] =
     Inr \<lparr> fg_title = ch_title RSS_CHANNEL, fg_link = ch_link RSS_CHANNEL,
           fg_description = ch_description RSS_CHANNEL, fg_language = ascii ''zh-CN'',
           fg_entries = [\<lparr> fe_id = it_guid example_item, fe_title = it_title example_item,
                           fe_link = it_link example_item,
                           fe_pubDate = DT (hour 17750980) (Some 0),
                           fe_description = desc_html example_item \<rparr>] \<rparr>"
proof -
  have t: "no_control_chars (it_guid example_item)" "no_control_chars (it_title example_item)"
    "no_control_chars (it_link example_item)" "no_control_chars (desc_html example_item)"
    by (simp_all add: no_control_chars_def desc_html_def author_line_def example_item_def ascii_def)
  have p: "it_pubDate example_item = Some (DT (hour 17750980) None)"
    by (simp add: example_item_def)
  show ?thesis
    by (simp add: build_rss_def render_entry_def to_rfc822_def p add_entry_def
        add_entry_default_order_def replace_tzinfo_utc_def rss_str_def feed_texts_def
        entry_texts_def example_texts t)
qed

theorem author_line_first_eight_witness:
  "map fe_description
     (fg_entries \<lparr> fg_title = ch_title RSS_CHANNEL, fg_link = ch_link RSS_CHANNEL,
           fg_description = ch_description RSS_CHANNEL, fg_language = ascii ''zh-CN'',
           fg_entries = [\<lparr> fe_id = it_guid example_item, fe_title = it_title example_item,
                           fe_link = it_link example_item,
                           fe_pubDate = DT (hour 17750980) (Some 0),
                           fe_description = desc_html example_item \<rparr>] \<rparr>)
     = [ascii ''<p><b>Authors:</b> A, B, C, D, E, F, G, H</p><p>Digest.</p>'']"
proof -
  let ?rss = "\<lparr> fg_title = ch_title RSS_CHANNEL, fg_link = ch_link RSS_CHANNEL,
           fg_description = ch_description RSS_CHANNEL, fg_language = ascii ''zh-CN'',
           fg_entries = [\<lparr> fe_id = it_guid example_item, fe_title = it_title example_item,
                           fe_link = it_link example_item,
                           fe_pubDate = DT (hour 17750980) (Some 0),
                           fe_description = desc_html example_item \<rparr>] \<rparr>"
  from author_line_first_eight[of no_control_chars RSS_CHANNEL "[example_item]" ?rss
      example_env paper2 example_item]
    example_item_build
  have "map fe_description (fg_entries ?rss)
        = rev (map (\<lambda>it. ascii ''<p><b>Authors:</b> ''
                     @ py_join (ascii '', '') (take 8 (it_authors it))
                     @ ascii ''</p><p>'' @ it_summary_html it @ ascii ''</p>'') [example_item])"
    by blast
  also have "\<dots> = [ascii ''<p><b>Authors:</b> A, B, C, D, E, F, G, H</p><p>Digest.</p>'']"
    by (simp add: example_item_def ascii_def)
  finally show ?thesis .
qed

section \<open>The summarizer\<close>

text \<open>
  Claim C7, as the code has it. Without a key \<open>summarize\<close> returns the rule-based
  fallback. With a key it returns the text of the completion service when the call
  succeeds; when the call raises, whatever the exception, the exception is caught and the
  fallback is returned, provided the handler's own \<open>print\<close> of the error succeeds. When
  that \<open>print\<close> raises, its exception leaves \<open>summarize\<close>; this is the only way
  \<open>summarize\<close> raises.
\<close>

theorem summarize_falls_back:
  "(k = None \<or> k = Some [] \<longrightarrow>
      summarize k chat pr lower t a = Inr (fallback_summary lower a))
   \<and> (k = Some key \<and> key \<noteq> [] \<and> chat t (take 5000 a) = Inr c \<longrightarrow>
      summarize k chat pr lower t a = Inr c)
   \<and> (k = Some key \<and> key \<noteq> [] \<and> chat t (take 5000 a) = Inl e \<and> pr e = None \<longrightarrow>
      summarize k chat pr lower t a = Inr (fallback_summary lower a))
   \<and> (k = Some key \<and> key \<noteq> [] \<and> chat t (take 5000 a) = Inl e \<and> pr e = Some x \<longrightarrow>
      summarize k chat pr lower t a = Inl x)
   \<and> ((\<forall>e'. pr e' = None) \<longrightarrow> (\<exists>s. summarize k chat pr lower t a = Inr s))"
  by (auto simp: summarize_def split: option.splits sum.splits)

theorem summarize_falls_back_witness:
  "summarize (Some (ascii ''sk-1'')) (\<lambda>t a. Inl APIConnectionError) (\<lambda>e. None) ascii_lower
      (title paper2) (summary paper2)
     = Inr (fallback_summary ascii_lower (summary paper2))"
proof -
  have "ascii ''sk-1'' \<noteq> []" by (simp add: ascii_def)
  with summarize_falls_back[of "Some (ascii ''sk-1'')" "\<lambda>t a. Inl APIConnectionError"
      "\<lambda>e. None" ascii_lower "title paper2" "summary paper2" "ascii ''sk-1''" _
      APIConnectionError]
  show ?thesis by simp
qed

lemma broken_stdout_select_papers:
  "select_papers broken_stdout_env 0 (arxiv_results broken_stdout_env)
     = Inr [paper1, paper2, paper3]"
  by (simp add: broken_stdout_env_def example_env_def within_lookback_def
      updated_or_published_def dt_sub_def timedelta_hours_def DATETIME_MAX_def
      replace_tzinfo_utc_def hour_def topic_ok_def BLACKLIST_TERMS_def ascii_def ascii_lower_def
      paper1_def paper2_def paper3_def paper4_def paper5_def)

lemma broken_stdout_fresh:
  "fresh_papers broken_stdout_env {ascii ''2501.00001''} [paper1, paper2, paper3]
     = [paper2, paper3]"
  by (simp add: fresh_papers_def slice_to_def broken_stdout_env_def example_env_def
      paper1_def paper2_def paper3_def ascii_def)

lemma broken_stdout_make_item: "make_item broken_stdout_env paper2 = Inl UnicodeEncodeError"
  by (simp add: make_item_def summarize_def broken_stdout_env_def example_env_def ascii_def)

text \<open>
  Claim C7 as the specification words it fails: the call of the completion service raises,
  the exception is caught, the handler's \<open>print\<close> raises \<open>UnicodeEncodeError\<close>, and
  that exception leaves \<open>summarize\<close> and ends the run.
\<close>

theorem summarize_print_counterexample:
  "summarize (Some (ascii ''sk-1'')) (\<lambda>t a. Inl APIConnectionError)
      (\<lambda>e. Some UnicodeEncodeError) ascii_lower (title paper2) (summary paper2)
     = Inl UnicodeEncodeError
   \<and> fst (main broken_stdout_env example_files) = Inl UnicodeEncodeError"
proof -
  have "main broken_stdout_env example_files = (Inl UnicodeEncodeError, example_files)"
    by (simp add: main_def example_ensure_state broken_stdout_select_papers state_get_def
        broken_stdout_fresh broken_stdout_make_item)
  then show ?thesis by (simp add: summarize_def ascii_def)
qed

section \<open>The fallback digest\<close>

lemma replace_newline_flattened: "py_replace_char 10 (ascii '' '') a = flattened a"
  by (induction a) (simp_all add: py_replace_char_def flattened_def ascii_def)

lemma split_from_not_Nil: "split_from a as cur s \<noteq> []"
  by (induction a as cur s rule: split_from.induct) auto

lemma py_join_Cons: "xs \<noteq> [] \<Longrightarrow> py_join sep (x # xs) = x @ sep @ py_join sep xs"
  by (cases xs) simp_all

lemma join_split_from: "py_join (a # as) (split_from a as cur s) = cur @ s"
proof (induction a as cur s rule: split_from.induct)
  case (1 a as cur)
  show ?case by simp
next
  case (2 a as cur c cs)
  show ?case
  proof (cases "prefix (a # as) (c # cs)")
    case True
    then obtain r where r: "c # cs = (a # as) @ r" by (auto simp: prefix_def)
    then have d: "drop (length as) cs = r" by simp
    from 2(1)[OF True] d have j: "py_join (a # as) (split_from a as [] r) = r" by simp
    have "split_from a as cur (c # cs) = cur # split_from a as [] r"
      using True d by (simp del: Cons_prefix_Cons)
    then have "py_join (a # as) (split_from a as cur (c # cs)) = cur @ (a # as) @ r"
      using j by (simp add: py_join_Cons split_from_not_Nil del: py_join.simps)
    with r show ?thesis by simp
  next
    case False
    then have "split_from a as cur (c # cs) = split_from a as (cur @ [c]) cs"
      by (simp del: Cons_prefix_Cons)
    with 2(2)[OF False] show ?thesis by simp
  qed
qed

lemma join_split_dot_space: "py_join (ascii ''. '') (split_dot_space s) = s"
  using join_split_from[of 46 "[32]" "[]" s] by (simp add: split_dot_space_def ascii_def)

lemma split_from_pieces:
  assumes "\<forall>u v. cur = u @ v \<and> v \<noteq> [] \<longrightarrow> \<not> prefix (a # as) (v @ s)"
    and "piece \<in> set (split_from a as cur s)"
  shows "\<not> occurs_in (a # as) piece"
  using assms
proof (induction a as cur s rule: split_from.induct)
  case (1 a as cur)
  then have p: "piece = cur" by simp
  show ?case
  proof
    assume "occurs_in (a # as) piece"
    then obtain ps ss where "cur = ps @ (a # as) @ ss" using p by (auto simp: occurs_in_def)
    with 1(1) have "\<not> prefix (a # as) (((a # as) @ ss) @ [])" by blast
    then show False by simp
  qed
next
  case (2 a as cur c cs)
  have nocur: "\<not> occurs_in (a # as) cur"
  proof
    assume "occurs_in (a # as) cur"
    then obtain ps ss where "cur = ps @ (a # as) @ ss" by (auto simp: occurs_in_def)
    with 2(3) have "\<not> prefix (a # as) (((a # as) @ ss) @ c # cs)" by blast
    then show False by simp
  qed
  show ?case
  proof (cases "prefix (a # as) (c # cs)")
    case True
    then have "split_from a as cur (c # cs) = cur # split_from a as [] (drop (length as) cs)"
      by (simp del: Cons_prefix_Cons)
    with 2(4) consider "piece = cur" | "piece \<in> set (split_from a as [] (drop (length as) cs))"
      by auto
    then show ?thesis
    proof cases
      case 1
      with nocur show ?thesis by simp
    next
      case 2
      with "2.IH"(1)[OF True] show ?thesis by simp
    qed
  next
    case False
    have inv: "\<forall>u v. cur @ [c] = u @ v \<and> v \<noteq> [] \<longrightarrow> \<not> prefix (a # as) (v @ cs)"
    proof (intro allI impI)
      fix u v assume uv: "cur @ [c] = u @ v \<and> v \<noteq> []"
      then obtain v' where v: "v = v' @ [c]" "cur = u @ v'"
        by (metis append_butlast_last_id butlast_append butlast_snoc last_appendR last_snoc)
      show "\<not> prefix (a # as) (v @ cs)"
      proof (cases "v' = []")
        case True
        with v False show ?thesis by simp
      next
        case False
        with 2(3) v have "\<not> prefix (a # as) (v' @ c # cs)" by blast
        with v show ?thesis by simp
      qed
    qed
    from False have "split_from a as cur (c # cs) = split_from a as (cur @ [c]) cs"
      by (simp del: Cons_prefix_Cons)
    with 2(4) have "piece \<in> set (split_from a as (cur @ [c]) cs)" by simp
    from "2.IH"(2)[OF False inv this] show ?thesis .
  qed
qed

lemma split_dot_space_pieces:
  "piece \<in> set (split_dot_space s) \<Longrightarrow> \<not> occurs_in (ascii ''. '') piece"
  using split_from_pieces[of "[]" 46 "[32]" s piece]
  by (simp add: split_dot_space_def ascii_def)

lemma length_fallback_head: "length (fallback_head a) \<le> 600"
  by (simp add: fallback_head_def)

lemma no_newline_flattened: "10 \<notin> set (flattened a)"
  by (auto simp: flattened_def)

lemma bullets_distinct:
  "BULLET_GENERIC \<noteq> BULLET_DATA" "BULLET_GENERIC \<noteq> BULLET_METHOD"
  "BULLET_GENERIC \<noteq> BULLET_TASK" "BULLET_DATA \<noteq> BULLET_METHOD"
  "BULLET_DATA \<noteq> BULLET_TASK" "BULLET_METHOD \<noteq> BULLET_TASK"
  by (simp_all add: BULLET_GENERIC_def BULLET_DATA_def BULLET_METHOD_def BULLET_TASK_def)

lemma fallback_bullets_cases:
  fixes lower a
  defines "low \<equiv> lower a"
  defines "d \<equiv> occurs_in (ascii ''dataset'') low \<or> occurs_in (ascii ''era5'') low
                 \<or> occurs_in (ascii ''reanalysis'') low"
  defines "m \<equiv> occurs_in (ascii ''model'') low \<or> occurs_in (ascii ''neural'') low
                 \<or> occurs_in (ascii ''transformer'') low"
  defines "t \<equiv> occurs_in (ascii ''downscal'') low \<or> occurs_in (ascii ''forecast'') low
                 \<or> occurs_in (ascii ''nowcast'') low"
  shows "fallback_bullets lower a =
           (if \<not> d \<and> \<not> m \<and> \<not> t then [BULLET_GENERIC]
            else (if d then [BULLET_DATA] else []) @ (if m then [BULLET_METHOD] else [])
                   @ (if t then [BULLET_TASK] else []))"
  unfolding fallback_bullets_def Let_def d_def m_def t_def low_def occurs_in_def
    py_in_iff_sublist
  by simp

text \<open>
  Claim C8. The fallback digest is the head, a header line and the bullets, each bullet on
  a line of its own. The head is made from the abstract with every newline turned into a
  space: that text is cut at every dot followed by a space, into pieces that contain no dot
  followed by a space and give the text back when joined with one, and the first three
  pieces at most are joined again with a dot and a space and cut to 600 code points. The
  bullet on data is there exactly when the lower-cased abstract contains "dataset", "era5"
  or "reanalysis", the one on method exactly for "model", "neural" or "transformer", the one
  on the task exactly for "downscal", "forecast" or "nowcast", and the list is the generic
  bullet alone exactly when none of the nine occurs.
\<close>

theorem fallback_summary_shape:
  "fallback_summary lower a
     = take 600 (py_join (ascii ''. '') (take 3 (split_dot_space (flattened a))))
       @ POINTS_HEADER @ py_join BULLET_SEP (fallback_bullets lower a)
   \<and> py_join (ascii ''. '') (split_dot_space (flattened a)) = flattened a
   \<and> (\<forall>piece \<in> set (split_dot_space (flattened a)). \<not> occurs_in (ascii ''. '') piece)
   \<and> (BULLET_DATA \<in> set (fallback_bullets lower a) \<longleftrightarrow>
        occurs_in (ascii ''dataset'') (lower a) \<or> occurs_in (ascii ''era5'') (lower a)
          \<or> occurs_in (ascii ''reanalysis'') (lower a))
   \<and> (BULLET_METHOD \<in> set (fallback_bullets lower a) \<longleftrightarrow>
        occurs_in (ascii ''model'') (lower a) \<or> occurs_in (ascii ''neural'') (lower a)
          \<or> occurs_in (ascii ''transformer'') (lower a))
   \<and> (BULLET_TASK \<in> set (fallback_bullets lower a) \<longleftrightarrow>
        occurs_in (ascii ''downscal'') (lower a) \<or> occurs_in (ascii ''forecast'') (lower a)
          \<or> occurs_in (ascii ''nowcast'') (lower a))
   \<and> (fallback_bullets lower a = [BULLET_GENERIC] \<longleftrightarrow>
        \<not> (occurs_in (ascii ''dataset'') (lower a) \<or> occurs_in (ascii ''era5'') (lower a)
          \<or> occurs_in (ascii ''reanalysis'') (lower a)
          \<or> occurs_in (ascii ''model'') (lower a) \<or> occurs_in (ascii ''neural'') (lower a)
          \<or> occurs_in (ascii ''transformer'') (lower a)
          \<or> occurs_in (ascii ''downscal'') (lower a) \<or> occurs_in (ascii ''forecast'') (lower a)
          \<or> occurs_in (ascii ''nowcast'') (lower a)))
   \<and> (BULLET_GENERIC \<in> set (fallback_bullets lower a) \<longleftrightarrow>
        fallback_bullets lower a = [BULLET_GENERIC])
   \<and> distinct (fallback_bullets lower a)"
proof -
  define d where "d \<longleftrightarrow> occurs_in (ascii ''dataset'') (lower a) \<or> occurs_in (ascii ''era5'') (lower a)
                 \<or> occurs_in (ascii ''reanalysis'') (lower a)"
  define m where "m \<longleftrightarrow> occurs_in (ascii ''model'') (lower a) \<or> occurs_in (ascii ''neural'') (lower a)
                 \<or> occurs_in (ascii ''transformer'') (lower a)"
  define t where "t \<longleftrightarrow> occurs_in (ascii ''downscal'') (lower a) \<or> occurs_in (ascii ''forecast'') (lower a)
                 \<or> occurs_in (ascii ''nowcast'') (lower a)"
  have b: "fallback_bullets lower a =
           (if \<not> d \<and> \<not> m \<and> \<not> t then [BULLET_GENERIC]
            else (if d then [BULLET_DATA] else []) @ (if m then [BULLET_METHOD] else [])
                   @ (if t then [BULLET_TASK] else []))"
    unfolding d_def m_def t_def by (rule fallback_bullets_cases)
  have 1: "BULLET_DATA \<in> set (fallback_bullets lower a) \<longleftrightarrow> d"
    unfolding b using bullets_distinct by auto
  have 2: "BULLET_METHOD \<in> set (fallback_bullets lower a) \<longleftrightarrow> m"
    unfolding b using bullets_distinct by auto
  have 3: "BULLET_TASK \<in> set (fallback_bullets lower a) \<longleftrightarrow> t"
    unfolding b using bullets_distinct by auto
  have 4: "fallback_bullets lower a = [BULLET_GENERIC] \<longleftrightarrow> \<not> (d \<or> m \<or> t)"
    unfolding b using bullets_distinct by auto
  have 5: "BULLET_GENERIC \<in> set (fallback_bullets lower a) \<longleftrightarrow> \<not> (d \<or> m \<or> t)"
    unfolding b using bullets_distinct by auto
  have 6: "distinct (fallback_bullets lower a)"
    unfolding b using bullets_distinct by auto
  have 0: "fallback_summary lower a
     = take 600 (py_join (ascii ''. '') (take 3 (split_dot_space (flattened a))))
       @ POINTS_HEADER @ py_join BULLET_SEP (fallback_bullets lower a)"
    by (simp add: fallback_summary_def fallback_head_def replace_newline_flattened)
  have 7: "py_join (ascii ''. '') (split_dot_space (flattened a)) = flattened a"
    by (rule join_split_dot_space)
  have 8: "\<forall>piece \<in> set (split_dot_space (flattened a)). \<not> occurs_in (ascii ''. '') piece"
    using split_dot_space_pieces by blast
  from 0 1 2 3 4 5 6 7 8 show ?thesis
    unfolding d_def m_def t_def by blast
qed

lemma example_fallback_bullets:
  "fallback_bullets ascii_lower (summary paper2) = [BULLET_DATA]"
  by (simp add: fallback_bullets_def paper2_def ascii_def ascii_lower_def)

lemma example_fallback_bullets_generic:
  "fallback_bullets ascii_lower (summary paper3) = [BULLET_GENERIC]"
  by (simp add: fallback_bullets_def paper3_def ascii_def ascii_lower_def)

lemma example_flattened:
  "flattened (summary paper2) = ascii ''We use ERA5 data. It works. Really. Yes. No''"
  by (simp add: flattened_def paper2_def ascii_def)

lemma example_split:
  "split_dot_space (ascii ''We use ERA5 data. It works. Really. Yes. No'')
     = map ascii [''We use ERA5 data'', ''It works'', ''Really'', ''Yes'', ''No'']"
  by (simp add: split_dot_space_def ascii_def)

theorem fallback_summary_shape_witness:
  "fallback_summary ascii_lower (summary paper2)
     = ascii ''We use ERA5 data. It works. Really'' @ POINTS_HEADER @ BULLET_DATA
   \<and> summary paper2 = ascii ''We use ERA5'' @ [10] @ ascii ''data. It works.'' @ [10]
                         @ ascii ''Really. Yes. No''
   \<and> split_dot_space (flattened (summary paper2))
       = map ascii [''We use ERA5 data'', ''It works'', ''Really'', ''Yes'', ''No'']
   \<and> (occurs_in (ascii ''dataset'') (ascii_lower (summary paper2))
        \<or> occurs_in (ascii ''era5'') (ascii_lower (summary paper2))
        \<or> occurs_in (ascii ''reanalysis'') (ascii_lower (summary paper2)))
   \<and> \<not> occurs_in (ascii ''forecast'') (ascii_lower (summary paper3))"
proof -
  have h: "take 600 (py_join (ascii ''. '') (take 3 (split_dot_space (flattened (summary paper2)))))
        = ascii ''We use ERA5 data. It works. Really''"
    unfolding example_flattened example_split by (simp add: ascii_def)
  have s: "summary paper2 = ascii ''We use ERA5'' @ [10] @ ascii ''data. It works.'' @ [10]
                         @ ascii ''Really. Yes. No''"
    by (simp add: paper2_def)
  from fallback_summary_shape[of ascii_lower "summary paper2"]
    fallback_summary_shape[of ascii_lower "summary paper3"]
    example_fallback_bullets example_fallback_bullets_generic h s
    example_split[folded example_flattened]
  show ?thesis by simp
qed

end
